theory Spec2Isabelle
  imports Complex_Main "HOL-Library.Word"
begin

text \<open>
  A model of the fractal tile server: package \<open>fractal\<close> (request options, the navigator
  from pixels to fractal coordinates, the colour mapper) and the server \<open>fracserv\<close>
  (cache keys, the tile cache, persistence of tiles to disk, and the handler that
  renders, caches and serves a tile). Functions keep their Go names; what the handler
  changes (the response, the cache, the disk) is passed in and returned.
\<close>

section \<open>Package fractal\<close>

subsection \<open>Options\<close>

text \<open>
  \<open>Options\<close> embeds \<open>url.Values\<close>, a \<open>map[string][]string\<close>. \<open>Values.Get\<close> returns the
  first value stored under a key, and the empty string when the key is absent or its
  slice is empty.
\<close>

type_synonym Values = "string \<Rightarrow> string list option"
type_synonym Options = Values

definition Values_Get :: "Values \<Rightarrow> string \<Rightarrow> string" where
  "Values_Get v key =
     (case v key of
        None \<Rightarrow> []
      | Some [] \<Rightarrow> []
      | Some (x # _) \<Rightarrow> x)"

text \<open>
  \<open>strconv.Atoi\<close> (base 10, 64-bit \<open>int\<close>): an optional sign, then at least one decimal
  digit and nothing else; a value outside the \<open>int\<close> range is an error as well.
  \<open>None\<close> stands for \<open>err != nil\<close>.
\<close>

definition digit :: "char \<Rightarrow> nat option" where
  "digit c =
     (if of_char CHR ''0'' \<le> (of_char c :: nat) \<and> (of_char c :: nat) \<le> of_char CHR ''9''
      then Some (of_char c - of_char CHR ''0'') else None)"

fun digits :: "nat \<Rightarrow> string \<Rightarrow> nat option" where
  "digits n [] = Some n"
| "digits n (c # cs) =
     (case digit c of
        None \<Rightarrow> None
      | Some k \<Rightarrow> digits (n * 10 + k) cs)"

definition Atoi :: "string \<Rightarrow> int option" where
  "Atoi s =
     (case s of
        [] \<Rightarrow> None
      | c # cs \<Rightarrow>
          (let neg = (c = CHR ''-'');
               ds = (if c = CHR ''-'' \<or> c = CHR ''+'' then cs else s)
           in if ds = [] then None
              else (case digits 0 ds of
                      None \<Rightarrow> None
                    | Some un \<Rightarrow>
                        if neg then (if un > 2 ^ 63 then None else Some (- int un))
                        else (if un \<ge> 2 ^ 63 then None else Some (int un)))))"

definition GetIntDefault :: "Options \<Rightarrow> string \<Rightarrow> int \<Rightarrow> int" where
  "GetIntDefault opts k d =
     (case Atoi (Values_Get opts k) of
        None \<Rightarrow> d
      | Some v \<Rightarrow> v)"

text \<open>
  \<open>strconv.ParseFloat(s, 64)\<close>: the empty string is a syntax error; what the library
  makes of any other string is the parameter \<open>parse\<close>, with \<open>None\<close> for \<open>err != nil\<close> and
  \<^typ>\<open>'f\<close> for \<open>float64\<close>.
\<close>

definition ParseFloat :: "(string \<Rightarrow> 'f option) \<Rightarrow> string \<Rightarrow> 'f option" where
  "ParseFloat parse s = (if s = [] then None else parse s)"

definition GetFloat64Default :: "(string \<Rightarrow> 'f option) \<Rightarrow> Options \<Rightarrow> string \<Rightarrow> 'f \<Rightarrow> 'f" where
  "GetFloat64Default parse opts k d =
     (case ParseFloat parse (Values_Get opts k) of
        None \<Rightarrow> d
      | Some v \<Rightarrow> v)"

subsection \<open>Navigator\<close>

text \<open>
  \<open>image.Point\<close> has two \<open>int\<close> fields, 64-bit two's complement on the platforms the
  server runs on: \<open>+\<close> wraps around. \<open>float64\<close> is read as \<^typ>\<open>real\<close>: rounding is not
  modelled, \<open>float64(x)\<close> is the value of the integer and \<open>math.Pow(2, z)\<close> is \<open>2 powr z\<close>.
  On the fixture inputs below (small integers, powers of two) the \<open>float64\<close> operations
  are exact, so there the idealisation loses nothing.
\<close>

type_synonym int64 = "64 word"

record Point =
  X :: int64
  Y :: int64

definition Pt :: "int64 \<Rightarrow> int64 \<Rightarrow> Point" where
  "Pt x y = \<lparr>X = x, Y = y\<rparr>"

record DefaultNavigator =
  z :: real
  offset :: Point

definition NewDefaultNavigator :: "real \<Rightarrow> int64 \<Rightarrow> int64 \<Rightarrow> DefaultNavigator" where
  "NewDefaultNavigator zoom xoff yoff = \<lparr>z = zoom, offset = Pt xoff yoff\<rparr>"



definition GetTranslate :: "DefaultNavigator \<Rightarrow> Point" where
  "GetTranslate n = offset n"

definition Translate :: "DefaultNavigator \<Rightarrow> Point \<Rightarrow> DefaultNavigator" where
  "Translate n off = n\<lparr>offset := off\<rparr>"

definition Zoom :: "DefaultNavigator \<Rightarrow> real \<Rightarrow> DefaultNavigator" where
  "Zoom n zoom = n\<lparr>z := zoom\<rparr>"

definition GetZoom :: "DefaultNavigator \<Rightarrow> real" where
  "GetZoom n = z n"

subsection \<open>HSVToRGBA\<close>

text \<open>
  \<open>color.RGBA\<close> has four \<open>uint8\<close> channels. \<open>math.Floor(h / 60)\<close> is an integer, and
  \<open>math.Mod(x, 6)\<close> of an integer \<open>x\<close> keeps the sign of \<open>x\<close>: its magnitude is
  \<open>\<bar>x\<bar> mod 6\<close>. The conversion \<open>uint8(r * 255)\<close> drops the fraction; the channels
  stay within 0..255 when \<open>s\<close> and \<open>v\<close> are in [0,1], and the model wraps a value outside
  that range. A \<open>switch\<close> without a matching case leaves \<open>c\<close> at the zero value of
  \<open>color.RGBA\<close>.
\<close>

type_synonym uint8 = "8 word"

record RGBA =
  R :: uint8
  G :: uint8
  B :: uint8
  A :: uint8

definition math_Mod6 :: "int \<Rightarrow> int" where
  "math_Mod6 x = sgn x * (\<bar>x\<bar> mod 6)"

definition to_uint8 :: "real \<Rightarrow> uint8" where
  "to_uint8 r = word_of_int (if 0 \<le> r then \<lfloor>r\<rfloor> else \<lceil>r\<rceil>)"

definition RGB :: "real \<Rightarrow> real \<Rightarrow> real \<Rightarrow> RGBA" where
  "RGB r g b = \<lparr>R = to_uint8 (r * 255), G = to_uint8 (g * 255), B = to_uint8 (b * 255), A = 255\<rparr>"

definition HSVToRGBA :: "real \<Rightarrow> real \<Rightarrow> real \<Rightarrow> RGBA" where
  "HSVToRGBA h s v =
     (let hi = math_Mod6 \<lfloor>h / 60\<rfloor>;
          f = (h / 60) - of_int \<lfloor>h / 60\<rfloor>;
          p = v * (1 - s);
          q = v * (1 - (f * s));
          t = v * (1 - ((1 - f) * s))
      in if hi = 0 then RGB v t p
         else if hi = 1 then RGB q v p
         else if hi = 2 then RGB p v t
         else if hi = 3 then RGB p q v
         else if hi = 4 then RGB t p v
         else if hi = 5 then RGB v p q
         else \<lparr>R = 0, G = 0, B = 0, A = 0\<rparr>)"

section \<open>Package main: fracserv\<close>

subsection \<open>Cache keys\<close>

text \<open>
  Go strings are byte sequences, and \<^typ>\<open>char\<close> is a byte, so a Go \<open>string\<close> and a
  \<open>[]byte\<close> are both a \<^typ>\<open>char list\<close>. \<open>strings.Map\<close> applies its function to every
  rune of a string. In ASCII runes and bytes coincide, and a rune outside ASCII is
  encoded by bytes that are neither \<open>?\<close> nor \<open>&\<close>; so for a string that is valid UTF-8,
  as a request URI is, \<open>strings.Map cleanup\<close> is \<^const>\<open>map\<close> of \<open>cleanup\<close> on the bytes.
  (A byte that is not valid UTF-8 is decoded as the rune U+FFFD; such strings are
  outside this model.)
\<close>

type_synonym byte = char

definition cleanup :: "char \<Rightarrow> char" where
  "cleanup r =
     (if r = CHR ''?'' then CHR ''/''
      else if r = CHR ''&'' then CHR '',''
      else r)"

definition fsNameFromURL :: "string \<Rightarrow> string" where
  "fsNameFromURL url = map cleanup url"

subsection \<open>Cache entries and the tile cache\<close>

text \<open>
  A \<open>time.Time\<close> is counted in nanoseconds; \<open>time.Hour\<close> is a \<open>Duration\<close> in the same
  unit and \<open>t.Add(d)\<close> adds it.
\<close>

type_synonym Time = int

definition Hour :: int where
  "Hour = 3600 * 1000000000"

definition Time_Add :: "Time \<Rightarrow> int \<Rightarrow> Time" where
  "Time_Add t d = t + d"

record cachedPng =
  Timestamp :: Time
  Bytes :: "byte list"

definition Size :: "cachedPng \<Rightarrow> int" where
  "Size c = int (length (Bytes c))"

text \<open>
  Modelled from the spec: package \<open>cache\<close> (\<open>cache.Cache\<close>, \<open>NewCache\<close>, \<open>Get\<close>, \<open>Add\<close>) is
  imported by \<open>fracserv.go\<close> and is not among the sources. The spec describes it as a
  mapping from cache key to cache entry with at most one live entry per key:
  \<open>get(key)\<close> returns the entry and whether it was found, \<open>add(key, entry)\<close> inserts or
  replaces. \<open>NewCache\<close> is given no bound, and the spec leaves eviction open, so no
  entry is evicted here.
\<close>

type_synonym Cache = "string \<Rightarrow> cachedPng option"

definition NewCache :: Cache where
  "NewCache = Map.empty"

definition cache_Get :: "Cache \<Rightarrow> string \<Rightarrow> cachedPng option" where
  "cache_Get c key = c key"

definition cache_Add :: "Cache \<Rightarrow> string \<Rightarrow> cachedPng \<Rightarrow> Cache" where
  "cache_Add c key e = c(key \<mapsto> e)"

subsection \<open>The file system\<close>

text \<open>
  The calls of package \<open>os\<close> act on a file system of directories and regular files.
  A name can be created where nothing exists yet and its directory does; the directory
  of a name is given by \<open>dir\<close>, the function \<open>path.Dir\<close>. Failures for other reasons
  (permissions, a full disk) are not modelled. A new file carries the time of the
  system clock.
\<close>

record osfile =
  content :: "byte list"
  mtime :: Time
  atime :: Time

record filesys =
  dirs :: "string set"
  files :: "string \<Rightarrow> osfile option"

text \<open>\<open>os.Stat(name)\<close>: whether \<open>err == nil\<close>.\<close>

definition os_Stat :: "filesys \<Rightarrow> string \<Rightarrow> bool" where
  "os_Stat F name = (name \<in> dirs F \<or> files F name \<noteq> None)"

text \<open>\<open>os.Mkdir(name, 0700)\<close>; the caller drops the error.\<close>

definition os_Mkdir :: "(string \<Rightarrow> string) \<Rightarrow> filesys \<Rightarrow> string \<Rightarrow> filesys" where
  "os_Mkdir dir F name =
     (if os_Stat F name then F
      else if dir name \<in> dirs F then F\<lparr>dirs := insert name (dirs F)\<rparr>
      else F)"

text \<open>
  \<open>os.OpenFile(name, os.O_CREATE|os.O_WRONLY, 0644)\<close>: \<open>None\<close> is \<open>err != nil\<close>. An
  existing file is opened as it is (there is no \<open>O_TRUNC\<close>).
\<close>

definition os_OpenFile :: "(string \<Rightarrow> string) \<Rightarrow> Time \<Rightarrow> filesys \<Rightarrow> string \<Rightarrow> filesys option" where
  "os_OpenFile dir clock F name =
     (if name \<in> dirs F then None
      else (case files F name of
              Some f \<Rightarrow> Some F
            | None \<Rightarrow>
                if dir name \<in> dirs F
                then Some (F\<lparr>files := (files F)(name \<mapsto> \<lparr>content = [], mtime = clock, atime = clock\<rparr>)\<rparr>)
                else None))"

text \<open>\<open>outf.Write(b)\<close> on a file just opened: the bytes go to the start of the file.\<close>

definition file_Write :: "Time \<Rightarrow> filesys \<Rightarrow> string \<Rightarrow> byte list \<Rightarrow> filesys" where
  "file_Write clock F name b =
     (case files F name of
        None \<Rightarrow> F
      | Some f \<Rightarrow>
          F\<lparr>files := (files F)(name \<mapsto> f\<lparr>content := b @ drop (length b) (content f), mtime := clock\<rparr>)\<rparr>)"

text \<open>\<open>os.Chtimes(name, atime, mtime)\<close>; an error is only logged.\<close>

definition os_Chtimes :: "filesys \<Rightarrow> string \<Rightarrow> Time \<Rightarrow> Time \<Rightarrow> filesys" where
  "os_Chtimes F name a m =
     (case files F name of
        None \<Rightarrow> F
      | Some f \<Rightarrow> F\<lparr>files := (files F)(name \<mapsto> f\<lparr>mtime := m, atime := a\<rparr>)\<rparr>)"

subsection \<open>The response writer\<close>

text \<open>
  An \<open>http.ResponseWriter\<close>: the header map, the status once it has been written, and
  the bytes of the body. The first \<open>Write\<close> writes status 200 when no status was written
  before; a \<open>WriteHeader\<close> after that changes nothing. A handler that returns without
  writing leaves the status to the server, which sends 200.
  The header map is the one the handler fills; a \<open>Content-Type\<close> that the server derives
  from the body when the handler set none is not part of it.
\<close>

record ResponseWriter =
  Header :: "string \<Rightarrow> string option"
  wroteHeader :: "nat option"
  body :: "byte list"

definition newResponse :: ResponseWriter where
  "newResponse = \<lparr>Header = Map.empty, wroteHeader = None, body = []\<rparr>"

definition Header_Set :: "ResponseWriter \<Rightarrow> string \<Rightarrow> string \<Rightarrow> ResponseWriter" where
  "Header_Set w k v = w\<lparr>Header := (Header w)(k \<mapsto> v)\<rparr>"

definition WriteHeader :: "ResponseWriter \<Rightarrow> nat \<Rightarrow> ResponseWriter" where
  "WriteHeader w c =
     (case wroteHeader w of
        None \<Rightarrow> w\<lparr>wroteHeader := Some c\<rparr>
      | Some _ \<Rightarrow> w)"

definition Write :: "ResponseWriter \<Rightarrow> byte list \<Rightarrow> ResponseWriter" where
  "Write w b = (let w1 = WriteHeader w 200 in w1\<lparr>body := body w1 @ b\<rparr>)"

definition statusCode :: "ResponseWriter \<Rightarrow> nat" where
  "statusCode w =
     (case wroteHeader w of
        None \<Rightarrow> 200
      | Some c \<Rightarrow> c)"

definition StatusInternalServerError :: nat where
  "StatusInternalServerError = 500"

text \<open>\<open>http.Error(w, error, code)\<close>: a plain-text reply, the error text and a newline.\<close>

definition http_Error :: "ResponseWriter \<Rightarrow> string \<Rightarrow> nat \<Rightarrow> ResponseWriter" where
  "http_Error w err c =
     Write (WriteHeader (Header_Set w ''Content-Type'' ''text/plain; charset=utf-8'') c)
       (err @ [CHR 0x0A])"

subsection \<open>The server\<close>

text \<open>
  The globals of the program (\<open>factory\<close>, \<open>cacheDir\<close>, \<open>disableCache\<close>, \<open>pngCache\<close>), the
  file system, and three traces: the cache keys of the \<open>savePngFromCache\<close> goroutines
  started, the calls made to constructors of the registry, and the keys \<open>pngCache.Get\<close>
  was called with. A constructor returns an error text or an image.
\<close>

record 'img server =
  factory :: "string \<Rightarrow> (Options \<Rightarrow> string + 'img) option"
  cacheDir :: string
  disableCache :: bool
  pngCache :: Cache
  disk :: filesys
  goroutines :: "string list"
  factoryCalls :: "(string \<times> Options) list"
  lookups :: "string list"

text \<open>
  What the libraries compute is a parameter: \<open>png.Encode\<close> gives the bytes it wrote and
  its error, if any; \<open>t.Format(http.TimeFormat)\<close> the text of a time; \<open>path.Dir\<close> the
  directory of a path.
\<close>

record 'img library =
  png_Encode :: "'img \<Rightarrow> byte list \<times> string option"
  Format :: "Time \<Rightarrow> string"
  path_Dir :: "string \<Rightarrow> string"

record Request =
  RequestURI :: string
  Query :: Options

definition lookup :: "'img server \<Rightarrow> string \<Rightarrow> cachedPng option \<times> 'img server" where
  "lookup st key = (cache_Get (pngCache st) key, st\<lparr>lookups := lookups st @ [key]\<rparr>)"

text \<open>\<open>savePngFromCache\<close>: \<open>clock\<close> is the system time when the file is created.\<close>

definition savePngFromCache :: "'img library \<Rightarrow> Time \<Rightarrow> string \<Rightarrow> 'img server \<Rightarrow> 'img server" where
  "savePngFromCache L clock cacheKey st0 =
     (case lookup st0 cacheKey of
        (None, st) \<Rightarrow> st
      | (Some cp, st) \<Rightarrow>
          (let cachefn = cacheDir st @ cacheKey;
               d = path_Dir L cachefn;
               F1 = (if os_Stat (disk st) d then disk st else os_Mkdir (path_Dir L) (disk st) d)
           in if os_Stat F1 cachefn then st\<lparr>disk := F1\<rparr>
              else (case os_OpenFile (path_Dir L) clock F1 cachefn of
                      None \<Rightarrow> st\<lparr>disk := F1\<rparr>
                    | Some F2 \<Rightarrow>
                        (let F3 = file_Write clock F2 cachefn (Bytes cp);
                             F4 = os_Chtimes F3 cachefn (Timestamp cp) (Timestamp cp)
                         in st\<lparr>disk := F4\<rparr>))))"

text \<open>
  \<open>png.Encode(w, i)\<close> writes to its writer the bytes the encoder produces; its result is
  dropped by both callers. An encoder that fails before its first byte never calls
  \<open>Write\<close>.
\<close>

definition Encode_to :: "ResponseWriter \<Rightarrow> byte list \<times> string option \<Rightarrow> ResponseWriter" where
  "Encode_to w r = (if fst r = [] then w else Write w (fst r))"

text \<open>The tail of \<open>drawFractal\<close>: the three headers and the bytes of the entry.\<close>

definition respond :: "'img library \<Rightarrow> ResponseWriter \<Rightarrow> cachedPng \<Rightarrow> ResponseWriter" where
  "respond L w cp =
     (let w1 = Header_Set w ''Content-Type'' ''image/png'';
          w2 = Header_Set w1 ''Last-Modified'' (Format L (Timestamp cp));
          w3 = Header_Set w2 ''Expires'' (Format L (Time_Add (Timestamp cp) Hour))
      in Write w3 (Bytes cp))"

text \<open>
  \<open>drawFractal\<close>: \<open>now\<close> is what \<open>time.Now()\<close> returns. Calling the \<open>nil\<close> function that
  \<open>factory\<close> holds for an unknown type panics.
\<close>

datatype panic = NilFunc

definition construct ::
  "'img server \<Rightarrow> Request \<Rightarrow> string \<Rightarrow> panic + ((string + 'img) \<times> 'img server)" where
  "construct st req fracType =
     (case factory st fracType of
        None \<Rightarrow> Inl NilFunc
      | Some newFractal \<Rightarrow>
          Inr (newFractal (Query req),
               st\<lparr>factoryCalls := factoryCalls st @ [(fracType, Query req)]\<rparr>))"

definition drawFractal ::
  "'img library \<Rightarrow> Time \<Rightarrow> ResponseWriter \<Rightarrow> Request \<Rightarrow> string \<Rightarrow> 'img server
     \<Rightarrow> panic + (ResponseWriter \<times> 'img server)" where
  "drawFractal L now w req fracType st0 =
     (if disableCache st0 then
        (case construct st0 req fracType of
           Inl e \<Rightarrow> Inl e
         | Inr (Inl err, st1) \<Rightarrow> Inr (http_Error w err StatusInternalServerError, st1)
         | Inr (Inr i, st1) \<Rightarrow> Inr (Encode_to w (png_Encode L i), st1))
      else
        (let cacheKey = fsNameFromURL (RequestURI req)
         in case lookup st0 cacheKey of
              (Some cacher, st) \<Rightarrow> Inr (respond L w cacher, st)
            | (None, st) \<Rightarrow>
                (case construct st req fracType of
                   Inl e \<Rightarrow> Inl e
                 | Inr (Inl err, st1) \<Rightarrow> Inr (http_Error w err StatusInternalServerError, st1)
                 | Inr (Inr i, st1) \<Rightarrow>
                     (let b = fst (png_Encode L i);
                          cacher = \<lparr>Timestamp = now, Bytes = b\<rparr>;
                          st2 = st1\<lparr>pngCache := cache_Add (pngCache st1) cacheKey cacher\<rparr>;
                          st3 = st2\<lparr>goroutines := goroutines st2 @ [cacheKey]\<rparr>
                      in Inr (respond L w cacher, st3)))))"

section \<open>Example inputs\<close>

text \<open>A query with an integer, a float, a malformed value and a key without values.\<close>

definition example_options :: Options where
  "example_options = [''z'' \<mapsto> [''12'', ''7''], ''c'' \<mapsto> [''0.5''], ''w'' \<mapsto> [''1x''], ''e'' \<mapsto> []]"

definition example_parse :: "string \<Rightarrow> real option" where
  "example_parse s = (if s = ''0.5'' then Some (1 / 2) else if s = ''2'' then Some 2 else None)"

text \<open>
  A library for the examples: an encoder that fails on image 0 after two bytes, a clock
  text for two times, and the directory of a clean rooted path of two or more elements
  (where \<open>path.Dir\<close> drops the last element and its slash).
\<close>

definition dirname :: "string \<Rightarrow> string" where
  "dirname p = rev (tl (dropWhile (\<lambda>c. c \<noteq> CHR ''/'') (rev p)))"

definition example_library :: "nat library" where
  "example_library =
     \<lparr>png_Encode = (\<lambda>i. if i = 0 then (''PN'', Some ''png: invalid format'') else (''PNG'', None)),
      Format = (\<lambda>t. if t = 5 then ''00:00:00 GMT''
                     else if t = 5 + Hour then ''01:00:00 GMT'' else ''later''),
      path_Dir = dirname\<rparr>"

definition example_factory :: "string \<Rightarrow> (Options \<Rightarrow> string + nat) option" where
  "example_factory =
     [''solid'' \<mapsto> (\<lambda>opts. Inr 2),
      ''debug'' \<mapsto> (\<lambda>opts. Inr 0),
      ''julia'' \<mapsto> (\<lambda>opts. Inl ''bad options'')]"

definition example_server :: "nat server" where
  "example_server =
     \<lparr>factory = example_factory, cacheDir = ''/tmp/fractals'', disableCache = False,
      pngCache = NewCache,
      disk = \<lparr>dirs = {''/tmp'', ''/tmp/fractals''}, files = Map.empty\<rparr>,
      goroutines = [], factoryCalls = [], lookups = []\<rparr>"

definition example_request :: "string \<Rightarrow> Request" where
  "example_request fracType =
     \<lparr>RequestURI = ''/'' @ fracType @ ''?z=2&c=0,0'', Query = [''z'' \<mapsto> [''2''], ''c'' \<mapsto> [''0,0'']]\<rparr>"

text \<open>A server whose cache holds a tile, with and without an older file on disk.\<close>

definition cached_server :: "nat server" where
  "cached_server =
     example_server\<lparr>pngCache := cache_Add NewCache ''/solid/z=2,c=0,0'' \<lparr>Timestamp = 5, Bytes = ''PNG''\<rparr>\<rparr>"

definition stale_server :: "nat server" where
  "stale_server =
     cached_server\<lparr>disk :=
       \<lparr>dirs = {''/tmp'', ''/tmp/fractals'', ''/tmp/fractals/solid''},
        files = [''/tmp/fractals/solid/z=2,c=0,0'' \<mapsto> \<lparr>content = ''OLD'', mtime = 1, atime = 2\<rparr>]\<rparr>\<rparr>"


text \<open>
  Two requests that differ in the separator of their query: one parameter \<open>a\<close> with the
  value \<open>1,b=2\<close>, and two parameters \<open>a\<close> and \<open>b\<close>.
\<close>

definition comma_request :: Request where
  "comma_request = \<lparr>RequestURI = ''/solid?a=1,b=2'', Query = [''a'' \<mapsto> [''1,b=2'']]\<rparr>"

definition amp_request :: Request where
  "amp_request = \<lparr>RequestURI = ''/solid?a=1&b=2'', Query = [''a'' \<mapsto> [''1''], ''b'' \<mapsto> [''2'']]\<rparr>"

section \<open>Properties of package fractal\<close>

subsection \<open>Options\<close>

lemma Atoi_examples:
  "Atoi ''12'' = Some 12" "Atoi ''-12'' = Some (- 12)" "Atoi ''+7'' = Some 7"
  "Atoi ''1x'' = None" "Atoi [] = None" "Atoi ''-'' = None"
  "Atoi ''9223372036854775807'' = Some 9223372036854775807"
  "Atoi ''9223372036854775808'' = None"
  "Atoi ''-9223372036854775808'' = Some (- 9223372036854775808)"
  by (simp_all add: Atoi_def digit_def)

text \<open>
  C6: \<open>GetIntDefault\<close> and \<open>GetFloat64Default\<close> return the parsed number when the first
  value stored under the key parses, and exactly the default they were given when that
  value does not parse, when the key is absent, or when it has no value. Neither has an
  error result.
\<close>

theorem typed_accessors_default:
  "(opts k = Some (s # rest) \<and> Atoi s = Some n \<longrightarrow> GetIntDefault opts k d = n) \<and>
   (opts k = Some (s # rest) \<and> Atoi s = None \<longrightarrow> GetIntDefault opts k d = d) \<and>
   (opts k = None \<or> opts k = Some [] \<longrightarrow> GetIntDefault opts k d = d) \<and>
   (opts k = Some (s # rest) \<and> ParseFloat parse s = Some x \<longrightarrow>
      GetFloat64Default parse opts k e = x) \<and>
   (opts k = Some (s # rest) \<and> ParseFloat parse s = None \<longrightarrow>
      GetFloat64Default parse opts k e = e) \<and>
   (opts k = None \<or> opts k = Some [] \<longrightarrow> GetFloat64Default parse opts k e = e)"
  by (auto simp: GetIntDefault_def GetFloat64Default_def Values_Get_def Atoi_def ParseFloat_def)

theorem typed_accessors_default_witness:
  "GetIntDefault example_options ''z'' 3 = 12 \<and>
   GetIntDefault example_options ''w'' 3 = 3 \<and>
   GetIntDefault example_options ''q'' 3 = 3 \<and>
   GetFloat64Default example_parse example_options ''c'' 9 = 1 / 2 \<and>
   GetFloat64Default example_parse example_options ''w'' 9 = 9 \<and>
   GetFloat64Default example_parse example_options ''q'' 9 = 9"
proof -
  have z: "example_options ''z'' = Some (''12'' # [''7''])"
    and w: "example_options ''w'' = Some (''1x'' # [])"
    and c: "example_options ''c'' = Some (''0.5'' # [])"
    and q: "example_options ''q'' = None"
    by (simp_all add: example_options_def)
  have i12: "Atoi ''12'' = Some 12" and i1x: "Atoi ''1x'' = None"
    by (simp_all add: Atoi_def digit_def)
  have f05: "ParseFloat example_parse ''0.5'' = Some (1 / 2)"
    and f1x: "ParseFloat example_parse ''1x'' = None"
    by (simp_all add: ParseFloat_def example_parse_def)
  note t = typed_accessors_default [where parse = example_parse and opts = example_options
      and d = 3 and e = 9]
  from t [where k = "''z''" and s = "''12''" and rest = "[''7'']" and n = 12 and x = 0] z i12
  have 1: "GetIntDefault example_options ''z'' 3 = 12" by simp
  from t [where k = "''w''" and s = "''1x''" and rest = "[]" and n = 0 and x = 0] w i1x f1x
  have 2: "GetIntDefault example_options ''w'' 3 = 3"
    and 5: "GetFloat64Default example_parse example_options ''w'' 9 = 9" by simp_all
  from t [where k = "''q''" and s = "[]" and rest = "[]" and n = 0 and x = 0] q
  have 3: "GetIntDefault example_options ''q'' 3 = 3"
    and 6: "GetFloat64Default example_parse example_options ''q'' 9 = 9" by simp_all
  from t [where k = "''c''" and s = "''0.5''" and rest = "[]" and n = 0 and x = "1 / 2"] c f05
  have 4: "GetFloat64Default example_parse example_options ''c'' 9 = 1 / 2" by simp
  from 1 2 3 4 5 6 show ?thesis by simp
qed

subsection \<open>Navigator\<close>







subsection \<open>HSVToRGBA\<close>

lemma math_Mod6_range: "0 \<le> x \<Longrightarrow> math_Mod6 x \<in> {0, 1, 2, 3, 4, 5}"
proof -
  assume x: "0 \<le> x"
  have m: "0 \<le> x mod 6 \<and> x mod 6 < 6" by simp
  have "math_Mod6 x = x mod 6"
    using x by (cases "x = 0") (simp_all add: math_Mod6_def sgn_if)
  with m show ?thesis by auto
qed

lemma A_RGB: "A (RGB r g b) = 255"
  by (simp add: RGB_def)

lemma HSVToRGBA_alpha_cases:
  "A (HSVToRGBA h s v) = (if math_Mod6 \<lfloor>h / 60\<rfloor> \<in> {0, 1, 2, 3, 4, 5} then 255 else 0)"
  by (simp add: HSVToRGBA_def Let_def A_RGB)

text \<open>For a hue that is not negative the sector is one of 0..5 and alpha is 255.\<close>

lemma HSVToRGBA_alpha_nonneg: "0 \<le> h \<Longrightarrow> A (HSVToRGBA h s v) = 255"
proof -
  assume "0 \<le> h"
  then have "0 \<le> \<lfloor>h / 60\<rfloor>" by simp
  then have "math_Mod6 \<lfloor>h / 60\<rfloor> \<in> {0, 1, 2, 3, 4, 5}" by (rule math_Mod6_range)
  then show ?thesis by (simp only: HSVToRGBA_alpha_cases if_True)
qed

lemma HSVToRGBA_primaries:
  "HSVToRGBA 0 1 1 = \<lparr>R = 255, G = 0, B = 0, A = 255\<rparr>"
  "HSVToRGBA 120 1 1 = \<lparr>R = 0, G = 255, B = 0, A = 255\<rparr>"
  "HSVToRGBA 240 1 1 = \<lparr>R = 0, G = 0, B = 255, A = 255\<rparr>"
  by (simp_all add: HSVToRGBA_def math_Mod6_def RGB_def to_uint8_def)

text \<open>
  C7: the alpha channel of \<open>HSVToRGBA h s v\<close>. At hue \<open>- 60\<close> with \<open>s = v = 1\<close> the sector
  \<open>math.Mod(- 1, 6)\<close> is \<open>- 1\<close>, no case of the switch matches, and the colour returned is
  the zero value: alpha is 0, not 255.
\<close>

theorem HSVToRGBA_negative_hue:
  "HSVToRGBA (- 60) 1 1 = \<lparr>R = 0, G = 0, B = 0, A = 0\<rparr>"
proof -
  have "\<lfloor>- 1 :: real\<rfloor> = - 1" by (simp add: floor_eq_iff)
  then show ?thesis by (simp add: HSVToRGBA_def math_Mod6_def)
qed

section \<open>Properties of fracserv\<close>

subsection \<open>The examples\<close>

lemmas example_defs = example_server_def example_library_def example_factory_def
  example_request_def cached_server_def stale_server_def

lemma example_key: "fsNameFromURL (RequestURI (example_request ''solid'')) = ''/solid/z=2,c=0,0''"
  by (simp add: example_request_def fsNameFromURL_def cleanup_def)

lemma dirname_examples:
  "dirname ''/tmp/fractals/solid/z=2,c=0,0'' = ''/tmp/fractals/solid''"
  "dirname ''/tmp/fractals/solid'' = ''/tmp/fractals''"
  by (simp_all add: dirname_def)

subsection \<open>Disk persistence\<close>

lemma os_Mkdir_files: "files (os_Mkdir dir F d) = files F"
  by (simp add: os_Mkdir_def)

lemma savePngFromCache_frame:
  "pngCache (savePngFromCache L clock key st) = pngCache st"
  "factory (savePngFromCache L clock key st) = factory st"
  "cacheDir (savePngFromCache L clock key st) = cacheDir st"
  "disableCache (savePngFromCache L clock key st) = disableCache st"
  "goroutines (savePngFromCache L clock key st) = goroutines st"
  "factoryCalls (savePngFromCache L clock key st) = factoryCalls st"
  "lookups (savePngFromCache L clock key st) = lookups st @ [key]"
  by (simp_all add: savePngFromCache_def lookup_def Let_def split: option.splits)


lemma savePngFromCache_existing:
  assumes "files (disk st) (cacheDir st @ key) = Some f"
  shows "files (disk (savePngFromCache L clock key st)) = files (disk st)"
  using assms
  by (simp add: savePngFromCache_def lookup_def Let_def os_Mkdir_files os_Stat_def
      split: option.splits)

lemma savePngFromCache_existing_disk:
  assumes "os_Stat (disk st) (cacheDir st @ key)"
    and "os_Stat (disk st) (path_Dir L (cacheDir st @ key))"
  shows "disk (savePngFromCache L clock key st) = disk st"
  using assms
  by (simp add: savePngFromCache_def lookup_def Let_def split: option.splits)

lemma savePngFromCache_writes:
  assumes "cache_Get (pngCache st) key = Some cp"
    and "\<not> os_Stat (disk st) (cacheDir st @ key)"
    and "path_Dir L (cacheDir st @ key) \<in> dirs (disk st) \<or>
            (\<not> os_Stat (disk st) (path_Dir L (cacheDir st @ key)) \<and>
             path_Dir L (path_Dir L (cacheDir st @ key)) \<in> dirs (disk st))"
  shows "files (disk (savePngFromCache L clock key st)) (cacheDir st @ key) =
           Some \<lparr>content = Bytes cp, mtime = Timestamp cp, atime = Timestamp cp\<rparr>"
    and "path_Dir L (cacheDir st @ key) \<in> dirs (disk (savePngFromCache L clock key st))"
  using assms
  by (auto simp add: savePngFromCache_def lookup_def Let_def os_Mkdir_def os_OpenFile_def
      file_Write_def os_Chtimes_def os_Stat_def split: option.splits if_splits)

text \<open>
  \<open>os.Mkdir\<close> makes one directory. When the directory of the path is missing and its own
  directory is missing too, the open fails and the disk stays as it was.
\<close>

lemma savePngFromCache_no_directory:
  assumes "\<not> os_Stat (disk st) (path_Dir L (cacheDir st @ key))"
    and "path_Dir L (path_Dir L (cacheDir st @ key)) \<notin> dirs (disk st)"
  shows "disk (savePngFromCache L clock key st) = disk st"
  using assms
  by (auto simp add: savePngFromCache_def lookup_def Let_def os_Mkdir_def os_OpenFile_def
      os_Stat_def split: option.splits if_splits)

text \<open>
  C3: \<open>savePngFromCache\<close> goes by the existence of the file. When a file exists at
  \<open>cacheDir @ key\<close>, no file is touched, whatever the cache holds (and nothing on disk
  changes when the path's directory is in place). When nothing exists at that path, the
  key has an entry, and the file can be created (its directory exists, or is absent and
  can be made by the one \<open>Mkdir\<close>), the file gets the entry's bytes and both its times are
  the entry's timestamp, not the clock of the write; a second call then changes nothing
  on disk, whatever the cache holds by then.
\<close>

theorem savePngFromCache_by_existence:
  "(files (disk st) (cacheDir st @ key) = Some f \<longrightarrow>
      files (disk (savePngFromCache L clock key st)) = files (disk st)) \<and>
   (files (disk st) (cacheDir st @ key) = Some f \<and>
    path_Dir L (cacheDir st @ key) \<in> dirs (disk st) \<longrightarrow>
      disk (savePngFromCache L clock key st) = disk st) \<and>
   (cache_Get (pngCache st) key = Some cp \<and>
    \<not> os_Stat (disk st) (cacheDir st @ key) \<and>
    (path_Dir L (cacheDir st @ key) \<in> dirs (disk st) \<or>
       (\<not> os_Stat (disk st) (path_Dir L (cacheDir st @ key)) \<and>
        path_Dir L (path_Dir L (cacheDir st @ key)) \<in> dirs (disk st))) \<longrightarrow>
      files (disk (savePngFromCache L clock key st)) (cacheDir st @ key) =
        Some \<lparr>content = Bytes cp, mtime = Timestamp cp, atime = Timestamp cp\<rparr> \<and>
      disk (savePngFromCache L clock' key ((savePngFromCache L clock key st)\<lparr>pngCache := c'\<rparr>)) =
        disk (savePngFromCache L clock key st))"
proof (intro conjI impI)
  assume "files (disk st) (cacheDir st @ key) = Some f"
  then show "files (disk (savePngFromCache L clock key st)) = files (disk st)"
    by (rule savePngFromCache_existing)
next
  assume "files (disk st) (cacheDir st @ key) = Some f \<and>
    path_Dir L (cacheDir st @ key) \<in> dirs (disk st)"
  then show "disk (savePngFromCache L clock key st) = disk st"
    by (intro savePngFromCache_existing_disk) (simp_all add: os_Stat_def)
next
  assume a: "cache_Get (pngCache st) key = Some cp \<and>
    \<not> os_Stat (disk st) (cacheDir st @ key) \<and>
    (path_Dir L (cacheDir st @ key) \<in> dirs (disk st) \<or>
       (\<not> os_Stat (disk st) (path_Dir L (cacheDir st @ key)) \<and>
        path_Dir L (path_Dir L (cacheDir st @ key)) \<in> dirs (disk st)))"
  then show "files (disk (savePngFromCache L clock key st)) (cacheDir st @ key) =
        Some \<lparr>content = Bytes cp, mtime = Timestamp cp, atime = Timestamp cp\<rparr>"
    by (intro savePngFromCache_writes(1)) simp_all
next
  assume a: "cache_Get (pngCache st) key = Some cp \<and>
    \<not> os_Stat (disk st) (cacheDir st @ key) \<and>
    (path_Dir L (cacheDir st @ key) \<in> dirs (disk st) \<or>
       (\<not> os_Stat (disk st) (path_Dir L (cacheDir st @ key)) \<and>
        path_Dir L (path_Dir L (cacheDir st @ key)) \<in> dirs (disk st)))"
  let ?st1 = "savePngFromCache L clock key st"
  let ?st2 = "?st1\<lparr>pngCache := c'\<rparr>"
  from a have "files (disk ?st1) (cacheDir st @ key) =
        Some \<lparr>content = Bytes cp, mtime = Timestamp cp, atime = Timestamp cp\<rparr>"
    by (intro savePngFromCache_writes(1)) simp_all
  then have 1: "os_Stat (disk ?st2) (cacheDir ?st2 @ key)"
    by (simp add: os_Stat_def savePngFromCache_frame)
  from a have "path_Dir L (cacheDir st @ key) \<in> dirs (disk ?st1)"
    by (intro savePngFromCache_writes(2)) simp_all
  then have 2: "os_Stat (disk ?st2) (path_Dir L (cacheDir ?st2 @ key))"
    by (simp add: os_Stat_def savePngFromCache_frame)
  from 1 2 have "disk (savePngFromCache L clock' key ?st2) = disk ?st2"
    by (rule savePngFromCache_existing_disk)
  then show "disk (savePngFromCache L clock' key ?st2) = disk ?st1" by simp
qed

theorem savePngFromCache_by_existence_witness:
  "files (disk (savePngFromCache example_library 9 ''/solid/z=2,c=0,0'' stale_server))
     ''/tmp/fractals/solid/z=2,c=0,0'' = Some \<lparr>content = ''OLD'', mtime = 1, atime = 2\<rparr> \<and>
   disk (savePngFromCache example_library 9 ''/solid/z=2,c=0,0'' stale_server) = disk stale_server \<and>
   files (disk (savePngFromCache example_library 9 ''/solid/z=2,c=0,0'' cached_server))
     ''/tmp/fractals/solid/z=2,c=0,0'' = Some \<lparr>content = ''PNG'', mtime = 5, atime = 5\<rparr> \<and>
   disk (savePngFromCache example_library 10 ''/solid/z=2,c=0,0''
          ((savePngFromCache example_library 9 ''/solid/z=2,c=0,0'' cached_server)
             \<lparr>pngCache := [''/solid/z=2,c=0,0'' \<mapsto> \<lparr>Timestamp = 8, Bytes = ''NEW''\<rparr>]\<rparr>)) =
     disk (savePngFromCache example_library 9 ''/solid/z=2,c=0,0'' cached_server)"
proof -
  note t = savePngFromCache_by_existence [where L = example_library and clock = 9 and clock' = 10
      and key = "''/solid/z=2,c=0,0''" and cp = "\<lparr>Timestamp = 5, Bytes = ''PNG''\<rparr>"
      and f = "\<lparr>content = ''OLD'', mtime = 1, atime = 2\<rparr>"
      and c' = "[''/solid/z=2,c=0,0'' \<mapsto> \<lparr>Timestamp = 8, Bytes = ''NEW''\<rparr>]"]
  have s: "files (disk stale_server) (cacheDir stale_server @ ''/solid/z=2,c=0,0'') =
      Some \<lparr>content = ''OLD'', mtime = 1, atime = 2\<rparr>"
    "path_Dir example_library (cacheDir stale_server @ ''/solid/z=2,c=0,0'') \<in> dirs (disk stale_server)"
    "cacheDir stale_server @ ''/solid/z=2,c=0,0'' = ''/tmp/fractals/solid/z=2,c=0,0''"
    by (simp_all add: example_defs dirname_def)
  have c: "cache_Get (pngCache cached_server) ''/solid/z=2,c=0,0'' = Some \<lparr>Timestamp = 5, Bytes = ''PNG''\<rparr>"
    "\<not> os_Stat (disk cached_server) (cacheDir cached_server @ ''/solid/z=2,c=0,0'')"
    "\<not> os_Stat (disk cached_server) (path_Dir example_library (cacheDir cached_server @ ''/solid/z=2,c=0,0''))"
    "path_Dir example_library (path_Dir example_library (cacheDir cached_server @ ''/solid/z=2,c=0,0''))
       \<in> dirs (disk cached_server)"
    "cacheDir cached_server @ ''/solid/z=2,c=0,0'' = ''/tmp/fractals/solid/z=2,c=0,0''"
    by (simp_all add: example_defs dirname_def cache_Get_def cache_Add_def NewCache_def os_Stat_def)
  from t [where st = stale_server] s
  have 1: "files (disk (savePngFromCache example_library 9 ''/solid/z=2,c=0,0'' stale_server))
     ''/tmp/fractals/solid/z=2,c=0,0'' = Some \<lparr>content = ''OLD'', mtime = 1, atime = 2\<rparr>"
    and 2: "disk (savePngFromCache example_library 9 ''/solid/z=2,c=0,0'' stale_server) = disk stale_server"
    by simp_all
  from t [where st = cached_server] c
  have 3: "files (disk (savePngFromCache example_library 9 ''/solid/z=2,c=0,0'' cached_server))
     ''/tmp/fractals/solid/z=2,c=0,0'' = Some \<lparr>content = ''PNG'', mtime = 5, atime = 5\<rparr>"
    and 4: "disk (savePngFromCache example_library 10 ''/solid/z=2,c=0,0''
          ((savePngFromCache example_library 9 ''/solid/z=2,c=0,0'' cached_server)
             \<lparr>pngCache := [''/solid/z=2,c=0,0'' \<mapsto> \<lparr>Timestamp = 8, Bytes = ''NEW''\<rparr>]\<rparr>)) =
     disk (savePngFromCache example_library 9 ''/solid/z=2,c=0,0'' cached_server)"
    by simp_all
  from 1 2 3 4 show ?thesis by simp
qed



subsection \<open>Responses\<close>

lemmas writer_defs = respond_def Write_def WriteHeader_def Header_Set_def newResponse_def
  statusCode_def http_Error_def Encode_to_def StatusInternalServerError_def

lemma respond_fresh:
  "statusCode (respond L newResponse cp) = 200"
  "Header (respond L newResponse cp) ''Content-Type'' = Some ''image/png''"
  "Header (respond L newResponse cp) ''Last-Modified'' = Some (Format L (Timestamp cp))"
  "Header (respond L newResponse cp) ''Expires'' = Some (Format L (Timestamp cp + 3600 * 1000000000))"
  "body (respond L newResponse cp) = Bytes cp"
  by (simp_all add: writer_defs Let_def Time_Add_def Hour_def)

lemma http_Error_fresh:
  "statusCode (http_Error newResponse err StatusInternalServerError) = 500"
  "body (http_Error newResponse err StatusInternalServerError) = err @ [CHR 0x0A]"
  by (simp_all add: writer_defs Let_def)

lemma Encode_to_fresh:
  "statusCode (Encode_to newResponse r) = 200"
  "body (Encode_to newResponse r) = fst r"
  "Header (Encode_to newResponse r) = Map.empty"
  by (simp_all add: writer_defs Let_def)

lemma drawFractal_disabled:
  assumes "disableCache st"
  shows "drawFractal L now w req ft st =
     (case factory st ft of
        None \<Rightarrow> Inl NilFunc
      | Some mk \<Rightarrow>
          Inr (case mk (Query req) of
                 Inl err \<Rightarrow> http_Error w err StatusInternalServerError
               | Inr i \<Rightarrow> Encode_to w (png_Encode L i),
               st\<lparr>factoryCalls := factoryCalls st @ [(ft, Query req)]\<rparr>))"
  using assms by (simp add: drawFractal_def construct_def split: option.splits sum.splits)

lemma drawFractal_hit:
  assumes "\<not> disableCache st"
    and "cache_Get (pngCache st) (fsNameFromURL (RequestURI req)) = Some cp"
  shows "drawFractal L now w req ft st =
           Inr (respond L w cp, st\<lparr>lookups := lookups st @ [fsNameFromURL (RequestURI req)]\<rparr>)"
  using assms by (simp add: drawFractal_def lookup_def Let_def)

lemma drawFractal_miss:
  assumes "\<not> disableCache st"
    and "cache_Get (pngCache st) (fsNameFromURL (RequestURI req)) = None"
  shows "drawFractal L now w req ft st =
     (case factory st ft of
        None \<Rightarrow> Inl NilFunc
      | Some mk \<Rightarrow>
          (case mk (Query req) of
             Inl err \<Rightarrow>
               Inr (http_Error w err StatusInternalServerError,
                    st\<lparr>lookups := lookups st @ [fsNameFromURL (RequestURI req)],
                       factoryCalls := factoryCalls st @ [(ft, Query req)]\<rparr>)
           | Inr i \<Rightarrow>
               Inr (respond L w \<lparr>Timestamp = now, Bytes = fst (png_Encode L i)\<rparr>,
                    st\<lparr>lookups := lookups st @ [fsNameFromURL (RequestURI req)],
                       factoryCalls := factoryCalls st @ [(ft, Query req)],
                       pngCache := cache_Add (pngCache st) (fsNameFromURL (RequestURI req))
                                     \<lparr>Timestamp = now, Bytes = fst (png_Encode L i)\<rparr>,
                       goroutines := goroutines st @ [fsNameFromURL (RequestURI req)]\<rparr>)))"
  using assms
  by (simp add: drawFractal_def lookup_def construct_def Let_def split: option.splits sum.splits)

text \<open>
  C4: a successful render request, answered on a fresh writer. With the cache enabled
  (a hit, or a miss whose constructor returns an image) the response has status 200,
  \<open>Content-Type: image/png\<close>, \<open>Last-Modified\<close> the text of the served entry's timestamp,
  \<open>Expires\<close> the text of that timestamp plus one hour, and the entry's bytes as body.
  With \<open>disableCache\<close> set the response has status 200 and the encoder's bytes as body,
  and \<open>drawFractal\<close> sets no header at all.
\<close>

theorem render_response:
  "(\<not> disableCache st \<and>
      (cache_Get (pngCache st) (fsNameFromURL (RequestURI req)) = Some hit \<or>
       (factory st ft = Some mk \<and> mk (Query req) = Inr i)) \<longrightarrow>
    (\<exists>w' st' cp.
       drawFractal L now newResponse req ft st = Inr (w', st') \<and>
       cache_Get (pngCache st') (fsNameFromURL (RequestURI req)) = Some cp \<and>
       statusCode w' = 200 \<and>
       Header w' ''Content-Type'' = Some ''image/png'' \<and>
       Header w' ''Last-Modified'' = Some (Format L (Timestamp cp)) \<and>
       Header w' ''Expires'' = Some (Format L (Timestamp cp + 3600 * 1000000000)) \<and>
       body w' = Bytes cp)) \<and>
   (disableCache st \<and> factory st ft = Some mk \<and> mk (Query req) = Inr i \<longrightarrow>
    (\<exists>w' st'.
       drawFractal L now newResponse req ft st = Inr (w', st') \<and>
       statusCode w' = 200 \<and>
       body w' = fst (png_Encode L i) \<and>
       Header w' = Map.empty))"
proof (intro conjI impI)
  assume a: "\<not> disableCache st \<and>
      (cache_Get (pngCache st) (fsNameFromURL (RequestURI req)) = Some hit \<or>
       (factory st ft = Some mk \<and> mk (Query req) = Inr i))"
  let ?k = "fsNameFromURL (RequestURI req)"
  show "\<exists>w' st' cp.
       drawFractal L now newResponse req ft st = Inr (w', st') \<and>
       cache_Get (pngCache st') ?k = Some cp \<and>
       statusCode w' = 200 \<and>
       Header w' ''Content-Type'' = Some ''image/png'' \<and>
       Header w' ''Last-Modified'' = Some (Format L (Timestamp cp)) \<and>
       Header w' ''Expires'' = Some (Format L (Timestamp cp + 3600 * 1000000000)) \<and>
       body w' = Bytes cp"
  proof (cases "cache_Get (pngCache st) ?k")
    case (Some cp)
    with a have "drawFractal L now newResponse req ft st =
        Inr (respond L newResponse cp, st\<lparr>lookups := lookups st @ [?k]\<rparr>)"
      by (simp add: drawFractal_hit)
    with Some show ?thesis by (simp add: respond_fresh)
  next
    case None
    with a have f: "factory st ft = Some mk" "mk (Query req) = Inr i" by simp_all
    let ?cp = "\<lparr>Timestamp = now, Bytes = fst (png_Encode L i)\<rparr>"
    from a None f have "drawFractal L now newResponse req ft st =
        Inr (respond L newResponse ?cp,
             st\<lparr>lookups := lookups st @ [?k],
                factoryCalls := factoryCalls st @ [(ft, Query req)],
                pngCache := cache_Add (pngCache st) ?k ?cp,
                goroutines := goroutines st @ [?k]\<rparr>)"
      by (simp add: drawFractal_miss)
    then show ?thesis by (simp add: respond_fresh cache_Get_def cache_Add_def)
  qed
next
  assume "disableCache st \<and> factory st ft = Some mk \<and> mk (Query req) = Inr i"
  then show "\<exists>w' st'.
       drawFractal L now newResponse req ft st = Inr (w', st') \<and>
       statusCode w' = 200 \<and>
       body w' = fst (png_Encode L i) \<and>
       Header w' = Map.empty"
    by (simp add: drawFractal_disabled Encode_to_fresh)
qed

theorem render_response_witness:
  "(\<exists>w' st'.
      drawFractal example_library 5 newResponse (example_request ''solid'') ''solid'' example_server
        = Inr (w', st') \<and>
      statusCode w' = 200 \<and> Header w' ''Content-Type'' = Some ''image/png'' \<and> body w' = ''PNG'') \<and>
   (\<exists>w' st'.
      drawFractal example_library 5 newResponse (example_request ''solid'') ''solid''
        (example_server\<lparr>disableCache := True\<rparr>) = Inr (w', st') \<and>
      statusCode w' = 200 \<and> body w' = ''PNG'' \<and> Header w' = Map.empty)"
proof -
  have f: "factory example_server ''solid'' = Some (\<lambda>opts. Inr 2)"
    by (simp add: example_defs)
  have e: "\<not> disableCache example_server" by (simp add: example_defs)
  have p: "fst (png_Encode example_library 2) = ''PNG''" by (simp add: example_defs)
  have k: "cache_Get (pngCache example_server) (fsNameFromURL (RequestURI (example_request ''solid''))) = None"
    by (simp add: example_defs cache_Get_def NewCache_def)
  note t = render_response [where L = example_library and now = 5 and req = "example_request ''solid''"
      and ft = "''solid''" and mk = "\<lambda>opts. Inr 2" and i = 2 and hit = "\<lparr>Timestamp = 0, Bytes = []\<rparr>"]
  from t [where st = example_server] f e
  obtain w' st' cp where
    1: "drawFractal example_library 5 newResponse (example_request ''solid'') ''solid'' example_server
        = Inr (w', st')"
    and 2: "cache_Get (pngCache st') (fsNameFromURL (RequestURI (example_request ''solid''))) = Some cp"
    and 3: "statusCode w' = 200" "Header w' ''Content-Type'' = Some ''image/png''"
      "body w' = Bytes cp"
    by auto
  from e k f have "drawFractal example_library 5 newResponse (example_request ''solid'') ''solid'' example_server =
     Inr (respond example_library newResponse \<lparr>Timestamp = 5, Bytes = fst (png_Encode example_library 2)\<rparr>,
          example_server\<lparr>lookups := lookups example_server @ [fsNameFromURL (RequestURI (example_request ''solid''))],
                       factoryCalls := factoryCalls example_server @ [(''solid'', Query (example_request ''solid''))],
                       pngCache := cache_Add (pngCache example_server) (fsNameFromURL (RequestURI (example_request ''solid'')))
                                     \<lparr>Timestamp = 5, Bytes = fst (png_Encode example_library 2)\<rparr>,
                       goroutines := goroutines example_server @ [fsNameFromURL (RequestURI (example_request ''solid''))]\<rparr>)"
    by (simp add: drawFractal_miss)
  with 1 have "body w' = ''PNG''" by (auto simp add: respond_fresh p)
  with 1 3 have A: "\<exists>w' st'.
      drawFractal example_library 5 newResponse (example_request ''solid'') ''solid'' example_server
        = Inr (w', st') \<and>
      statusCode w' = 200 \<and> Header w' ''Content-Type'' = Some ''image/png'' \<and> body w' = ''PNG''"
    by simp
  from t [where st = "example_server\<lparr>disableCache := True\<rparr>"] f p
  have B: "\<exists>w' st'.
      drawFractal example_library 5 newResponse (example_request ''solid'') ''solid''
        (example_server\<lparr>disableCache := True\<rparr>) = Inr (w', st') \<and>
      statusCode w' = 200 \<and> body w' = ''PNG'' \<and> Header w' = Map.empty"
    by simp
  from A B show ?thesis by simp
qed

text \<open>
  With \<open>disableCache\<close> set, a successful request carries neither \<open>Last-Modified\<close> nor
  \<open>Expires\<close>.
\<close>

theorem disabled_cache_headers_counterexample:
  "(case drawFractal example_library 5 newResponse (example_request ''solid'') ''solid''
           (example_server\<lparr>disableCache := True\<rparr>) of
      Inl e \<Rightarrow> False
    | Inr (w', st') \<Rightarrow>
        statusCode w' = 200 \<and> body w' = ''PNG'' \<and>
        Header w' ''Last-Modified'' = None \<and> Header w' ''Expires'' = None)"
  by (simp add: drawFractal_def construct_def example_defs writer_defs Let_def)

text \<open>
  C5: the error of \<open>png.Encode\<close> is dropped. When the encoder fails after producing the
  bytes \<open>b\<close>, the response has status 200 and body \<open>b\<close>, with the cache disabled and with
  the cache enabled, where \<open>b\<close> is also stored under the key. Only a failing constructor
  gives status 500 with the error text as body, and then nothing is cached and no
  goroutine is started.
\<close>

theorem encode_failure_ignored:
  "(disableCache st \<and> factory st ft = Some mk \<and> mk (Query req) = Inr i \<and>
    png_Encode L i = (b, Some e) \<longrightarrow>
      (\<exists>w' st'.
         drawFractal L now newResponse req ft st = Inr (w', st') \<and>
         statusCode w' = 200 \<and> body w' = b)) \<and>
   (\<not> disableCache st \<and> cache_Get (pngCache st) (fsNameFromURL (RequestURI req)) = None \<and>
    factory st ft = Some mk \<and> mk (Query req) = Inr i \<and> png_Encode L i = (b, Some e) \<longrightarrow>
      (\<exists>w' st'.
         drawFractal L now newResponse req ft st = Inr (w', st') \<and>
         statusCode w' = 200 \<and> Header w' ''Content-Type'' = Some ''image/png'' \<and> body w' = b \<and>
         cache_Get (pngCache st') (fsNameFromURL (RequestURI req)) =
           Some \<lparr>Timestamp = now, Bytes = b\<rparr>)) \<and>
   ((disableCache st \<or> cache_Get (pngCache st) (fsNameFromURL (RequestURI req)) = None) \<and>
    factory st ft = Some mk \<and> mk (Query req) = Inl err \<longrightarrow>
      (\<exists>w' st'.
         drawFractal L now newResponse req ft st = Inr (w', st') \<and>
         statusCode w' = 500 \<and> body w' = err @ [CHR 0x0A] \<and>
         pngCache st' = pngCache st \<and> goroutines st' = goroutines st))"
proof (intro conjI impI)
  assume "disableCache st \<and> factory st ft = Some mk \<and> mk (Query req) = Inr i \<and>
    png_Encode L i = (b, Some e)"
  then show "\<exists>w' st'.
         drawFractal L now newResponse req ft st = Inr (w', st') \<and>
         statusCode w' = 200 \<and> body w' = b"
    by (simp add: drawFractal_disabled Encode_to_fresh)
next
  assume "\<not> disableCache st \<and> cache_Get (pngCache st) (fsNameFromURL (RequestURI req)) = None \<and>
    factory st ft = Some mk \<and> mk (Query req) = Inr i \<and> png_Encode L i = (b, Some e)"
  then show "\<exists>w' st'.
         drawFractal L now newResponse req ft st = Inr (w', st') \<and>
         statusCode w' = 200 \<and> Header w' ''Content-Type'' = Some ''image/png'' \<and> body w' = b \<and>
         cache_Get (pngCache st') (fsNameFromURL (RequestURI req)) =
           Some \<lparr>Timestamp = now, Bytes = b\<rparr>"
    by (simp add: drawFractal_miss respond_fresh cache_Get_def cache_Add_def)
next
  assume a: "(disableCache st \<or> cache_Get (pngCache st) (fsNameFromURL (RequestURI req)) = None) \<and>
    factory st ft = Some mk \<and> mk (Query req) = Inl err"
  show "\<exists>w' st'.
         drawFractal L now newResponse req ft st = Inr (w', st') \<and>
         statusCode w' = 500 \<and> body w' = err @ [CHR 0x0A] \<and>
         pngCache st' = pngCache st \<and> goroutines st' = goroutines st"
  proof (cases "disableCache st")
    case True
    with a show ?thesis by (simp add: drawFractal_disabled http_Error_fresh)
  next
    case False
    with a show ?thesis by (simp add: drawFractal_miss http_Error_fresh)
  qed
qed

theorem encode_failure_ignored_witness:
  "(\<exists>w' st'.
      drawFractal example_library 5 newResponse (example_request ''debug'') ''debug''
        (example_server\<lparr>disableCache := True\<rparr>) = Inr (w', st') \<and>
      statusCode w' = 200 \<and> body w' = ''PN'') \<and>
   (\<exists>w' st'.
      drawFractal example_library 5 newResponse (example_request ''debug'') ''debug'' example_server
        = Inr (w', st') \<and>
      statusCode w' = 200 \<and> body w' = ''PN'' \<and>
      cache_Get (pngCache st') (fsNameFromURL (RequestURI (example_request ''debug''))) =
        Some \<lparr>Timestamp = 5, Bytes = ''PN''\<rparr>) \<and>
   (\<exists>w' st'.
      drawFractal example_library 5 newResponse (example_request ''julia'') ''julia'' example_server
        = Inr (w', st') \<and>
      statusCode w' = 500 \<and> body w' = ''bad options'' @ [CHR 0x0A])"
proof -
  note t = encode_failure_ignored [where L = example_library and now = 5 and b = "''PN''"
      and e = "''png: invalid format''" and i = 0 and err = "''bad options''"]
  have e: "png_Encode example_library 0 = (''PN'', Some ''png: invalid format'')"
    by (simp add: example_defs)
  have d: "factory example_server ''debug'' = Some (\<lambda>opts. Inr 0)"
    "factory (example_server\<lparr>disableCache := True\<rparr>) ''debug'' = Some (\<lambda>opts. Inr 0)"
    "disableCache (example_server\<lparr>disableCache := True\<rparr>)"
    "\<not> disableCache example_server"
    "cache_Get (pngCache example_server) (fsNameFromURL (RequestURI (example_request ''debug''))) = None"
    by (simp_all add: example_defs cache_Get_def NewCache_def)
  have j: "factory example_server ''julia'' = Some (\<lambda>opts. Inl ''bad options'')"
    "cache_Get (pngCache example_server) (fsNameFromURL (RequestURI (example_request ''julia''))) = None"
    by (simp_all add: example_defs cache_Get_def NewCache_def)
  from t [where st = "example_server\<lparr>disableCache := True\<rparr>" and ft = "''debug''"
      and req = "example_request ''debug''" and mk = "\<lambda>opts. Inr 0"] e d
  have 1: "\<exists>w' st'.
      drawFractal example_library 5 newResponse (example_request ''debug'') ''debug''
        (example_server\<lparr>disableCache := True\<rparr>) = Inr (w', st') \<and>
      statusCode w' = 200 \<and> body w' = ''PN''"
    by simp
  from t [where st = example_server and ft = "''debug''"
      and req = "example_request ''debug''" and mk = "\<lambda>opts. Inr 0"] e d
  have 2: "\<exists>w' st'.
      drawFractal example_library 5 newResponse (example_request ''debug'') ''debug'' example_server
        = Inr (w', st') \<and>
      statusCode w' = 200 \<and> body w' = ''PN'' \<and>
      cache_Get (pngCache st') (fsNameFromURL (RequestURI (example_request ''debug''))) =
        Some \<lparr>Timestamp = 5, Bytes = ''PN''\<rparr>"
    by auto
  from t [where st = example_server and ft = "''julia''"
      and req = "example_request ''julia''" and mk = "\<lambda>opts. Inl ''bad options''"] j d(4)
  have 3: "\<exists>w' st'.
      drawFractal example_library 5 newResponse (example_request ''julia'') ''julia'' example_server
        = Inr (w', st') \<and>
      statusCode w' = 500 \<and> body w' = ''bad options'' @ [CHR 0x0A]"
    by auto
  from 1 2 3 show ?thesis by blast
qed

text \<open>
  The encoder of the example fails on the image of type \<open>debug\<close> after the bytes \<open>PN\<close>:
  the client gets status 200 and those two bytes, not status 500 and the error text.
\<close>

theorem encode_failure_counterexample:
  "(case drawFractal example_library 5 newResponse (example_request ''debug'') ''debug'' example_server of
      Inl p \<Rightarrow> False
    | Inr (w', st') \<Rightarrow>
        png_Encode example_library 0 = (''PN'', Some ''png: invalid format'') \<and>
        factoryCalls st' = [(''debug'', Query (example_request ''debug''))] \<and>
        statusCode w' = 200 \<and> body w' = ''PN'' \<and>
        cache_Get (pngCache st') ''/debug/z=2,c=0,0'' = Some \<lparr>Timestamp = 5, Bytes = ''PN''\<rparr>) \<and>
   (case drawFractal example_library 5 newResponse (example_request ''debug'') ''debug''
           (example_server\<lparr>disableCache := True\<rparr>) of
      Inl p \<Rightarrow> False
    | Inr (w', st') \<Rightarrow> statusCode w' = 200 \<and> body w' = ''PN'')"
  by (simp add: drawFractal_def lookup_def construct_def example_defs writer_defs Let_def
      fsNameFromURL_def cleanup_def cache_Get_def cache_Add_def NewCache_def)

subsection \<open>The cache and the registry\<close>

text \<open>
  \<open>drawFractal\<close> returns unless it calls a constructor that the registry does not have:
  with the cache enabled a hit needs no constructor.
\<close>

lemma drawFractal_returns:
  "(\<exists>w' st'. drawFractal L now w req ft st = Inr (w', st')) \<longleftrightarrow>
     factory st ft \<noteq> None \<or>
     (\<not> disableCache st \<and>
      cache_Get (pngCache st) (fsNameFromURL (RequestURI req)) \<noteq> None)"
proof (cases "disableCache st")
  case True
  then show ?thesis
    by (auto simp: drawFractal_disabled split: option.splits)
next
  case False
  show ?thesis
  proof (cases "cache_Get (pngCache st) (fsNameFromURL (RequestURI req))")
    case None
    with False show ?thesis
      by (auto simp: drawFractal_miss split: option.splits sum.splits)
  next
    case (Some cp)
    with False show ?thesis by (simp add: drawFractal_hit)
  qed
qed

lemma drawFractal_status_200:
  assumes "\<not> disableCache st"
    and "drawFractal L now newResponse req ft st = Inr (w1, st1)"
    and "statusCode w1 = 200"
  shows "\<exists>cp. cache_Get (pngCache st1) (fsNameFromURL (RequestURI req)) = Some cp \<and>
              w1 = respond L newResponse cp \<and> \<not> disableCache st1 \<and> factory st1 = factory st"
proof (cases "cache_Get (pngCache st) (fsNameFromURL (RequestURI req))")
  case (Some cp)
  with assms show ?thesis by (auto simp: drawFractal_hit)
next
  case None
  show ?thesis
  proof (cases "factory st ft")
    case n: None
    with assms None show ?thesis by (simp add: drawFractal_miss)
  next
    case (Some mk)
    show ?thesis
    proof (cases "mk (Query req)")
      case (Inl err)
      with assms None Some show ?thesis
        by (auto simp: drawFractal_miss http_Error_fresh)
    next
      case (Inr i)
      with assms None Some show ?thesis
        by (auto simp: drawFractal_miss cache_Get_def cache_Add_def)
    qed
  qed
qed

text \<open>
  C9: with \<open>disableCache\<close> set, a request that \<open>drawFractal\<close> handles leaves the cache,
  the trace of cache lookups, the started goroutines and the disk as they were and calls
  the constructor of the registry once; two identical requests call it twice. With the
  flag unset, after a first request answered with status 200, an identical second
  request is answered with the entry now in the cache (the bytes of the first response)
  and calls no constructor, also when the goroutine of the first request has run in
  between.
\<close>

theorem cache_bypass_and_hit:
  "(disableCache st \<and> drawFractal L now w req ft st = Inr (w1, st1) \<longrightarrow>
      pngCache st1 = pngCache st \<and> lookups st1 = lookups st \<and>
      goroutines st1 = goroutines st \<and> disk st1 = disk st \<and>
      factoryCalls st1 = factoryCalls st @ [(ft, Query req)]) \<and>
   (disableCache st \<and> drawFractal L now w req ft st = Inr (w1, st1) \<and>
    drawFractal L now' w' req ft st1 = Inr (w2, st2) \<longrightarrow>
      pngCache st2 = pngCache st \<and> lookups st2 = lookups st \<and>
      goroutines st2 = goroutines st \<and> disk st2 = disk st \<and>
      factoryCalls st2 = factoryCalls st @ [(ft, Query req), (ft, Query req)]) \<and>
   (\<not> disableCache st \<and> drawFractal L now newResponse req ft st = Inr (w1, st1) \<and>
    statusCode w1 = 200 \<longrightarrow>
      (\<exists>cp st2 st3.
         cache_Get (pngCache st1) (fsNameFromURL (RequestURI req)) = Some cp \<and>
         body w1 = Bytes cp \<and>
         drawFractal L now' w' req ft st1 = Inr (respond L w' cp, st2) \<and>
         factoryCalls st2 = factoryCalls st1 \<and> pngCache st2 = pngCache st1 \<and>
         goroutines st2 = goroutines st1 \<and>
         drawFractal L now' w' req ft
             (savePngFromCache L clock (fsNameFromURL (RequestURI req)) st1) =
           Inr (respond L w' cp, st3) \<and>
         factoryCalls st3 = factoryCalls st1 \<and> pngCache st3 = pngCache st1))"
proof -
  have c1: "disableCache st \<and> drawFractal L now w req ft st = Inr (w1, st1) \<longrightarrow>
      pngCache st1 = pngCache st \<and> lookups st1 = lookups st \<and>
      goroutines st1 = goroutines st \<and> disk st1 = disk st \<and>
      factoryCalls st1 = factoryCalls st @ [(ft, Query req)]"
    by (auto simp: drawFractal_disabled split: option.splits)
  have c2: "disableCache st \<and> drawFractal L now w req ft st = Inr (w1, st1) \<and>
    drawFractal L now' w' req ft st1 = Inr (w2, st2) \<longrightarrow>
      pngCache st2 = pngCache st \<and> lookups st2 = lookups st \<and>
      goroutines st2 = goroutines st \<and> disk st2 = disk st \<and>
      factoryCalls st2 = factoryCalls st @ [(ft, Query req), (ft, Query req)]"
  proof
    assume a: "disableCache st \<and> drawFractal L now w req ft st = Inr (w1, st1) \<and>
      drawFractal L now' w' req ft st1 = Inr (w2, st2)"
    then have 1: "st1 = st\<lparr>factoryCalls := factoryCalls st @ [(ft, Query req)]\<rparr>"
      by (auto simp: drawFractal_disabled split: option.splits)
    then have "disableCache st1" using a by simp
    with a have "st2 = st1\<lparr>factoryCalls := factoryCalls st1 @ [(ft, Query req)]\<rparr>"
      by (auto simp: drawFractal_disabled split: option.splits)
    with 1 show "pngCache st2 = pngCache st \<and> lookups st2 = lookups st \<and>
        goroutines st2 = goroutines st \<and> disk st2 = disk st \<and>
        factoryCalls st2 = factoryCalls st @ [(ft, Query req), (ft, Query req)]"
      by simp
  qed
  let ?k = "fsNameFromURL (RequestURI req)"
  let ?sv = "savePngFromCache L clock ?k st1"
  have c3: "\<not> disableCache st \<and> drawFractal L now newResponse req ft st = Inr (w1, st1) \<and>
    statusCode w1 = 200 \<longrightarrow>
      (\<exists>cp st2 st3.
         cache_Get (pngCache st1) ?k = Some cp \<and>
         body w1 = Bytes cp \<and>
         drawFractal L now' w' req ft st1 = Inr (respond L w' cp, st2) \<and>
         factoryCalls st2 = factoryCalls st1 \<and> pngCache st2 = pngCache st1 \<and>
         goroutines st2 = goroutines st1 \<and>
         drawFractal L now' w' req ft ?sv = Inr (respond L w' cp, st3) \<and>
         factoryCalls st3 = factoryCalls st1 \<and> pngCache st3 = pngCache st1)"
  proof
    assume a: "\<not> disableCache st \<and> drawFractal L now newResponse req ft st = Inr (w1, st1) \<and>
      statusCode w1 = 200"
    then obtain cp where cp: "cache_Get (pngCache st1) ?k = Some cp"
      and w1: "w1 = respond L newResponse cp" and e: "\<not> disableCache st1"
      using drawFractal_status_200 [of st L now req ft w1 st1] by blast
    let ?st2 = "st1\<lparr>lookups := lookups st1 @ [?k]\<rparr>"
    let ?st3 = "?sv\<lparr>lookups := lookups ?sv @ [?k]\<rparr>"
    from e cp have 2: "drawFractal L now' w' req ft st1 = Inr (respond L w' cp, ?st2)"
      by (rule drawFractal_hit)
    from e cp have 3: "drawFractal L now' w' req ft ?sv = Inr (respond L w' cp, ?st3)"
      by (intro drawFractal_hit) (simp_all add: savePngFromCache_frame)
    from w1 have b: "body w1 = Bytes cp" by (simp add: respond_fresh)
    show "\<exists>cp st2 st3.
           cache_Get (pngCache st1) ?k = Some cp \<and>
           body w1 = Bytes cp \<and>
           drawFractal L now' w' req ft st1 = Inr (respond L w' cp, st2) \<and>
           factoryCalls st2 = factoryCalls st1 \<and> pngCache st2 = pngCache st1 \<and>
           goroutines st2 = goroutines st1 \<and>
           drawFractal L now' w' req ft ?sv = Inr (respond L w' cp, st3) \<and>
           factoryCalls st3 = factoryCalls st1 \<and> pngCache st3 = pngCache st1"
      apply (rule exI [of _ cp], rule exI [of _ ?st2], rule exI [of _ ?st3])
      using cp b 2 3 by (simp add: savePngFromCache_frame)
  qed
  show ?thesis by (rule conjI [OF c1 conjI [OF c2 c3]])
qed

theorem cache_bypass_and_hit_witness:
  "(\<exists>w1 st1 w2 st2.
      drawFractal example_library 5 newResponse (example_request ''solid'') ''solid''
        (example_server\<lparr>disableCache := True\<rparr>) = Inr (w1, st1) \<and>
      drawFractal example_library 6 newResponse (example_request ''solid'') ''solid'' st1
        = Inr (w2, st2) \<and>
      pngCache st1 = NewCache \<and> lookups st1 = [] \<and> goroutines st1 = [] \<and>
      factoryCalls st1 = [(''solid'', Query (example_request ''solid''))] \<and>
      pngCache st2 = NewCache \<and> lookups st2 = [] \<and> goroutines st2 = [] \<and>
      factoryCalls st2 = [(''solid'', Query (example_request ''solid'')),
                          (''solid'', Query (example_request ''solid''))]) \<and>
   (\<exists>w1 st1 cp st2.
      drawFractal example_library 5 newResponse (example_request ''solid'') ''solid'' example_server
        = Inr (w1, st1) \<and>
      drawFractal example_library 6 newResponse (example_request ''solid'') ''solid'' st1
        = Inr (respond example_library newResponse cp, st2) \<and>
      body w1 = Bytes cp \<and> factoryCalls st2 = factoryCalls st1)"
proof -
  let ?req = "example_request ''solid''"
  let ?off = "example_server\<lparr>disableCache := True\<rparr>"
  let ?s1 = "?off\<lparr>factoryCalls := factoryCalls ?off @ [(''solid'', Query ?req)]\<rparr>"
  let ?s2 = "?s1\<lparr>factoryCalls := factoryCalls ?s1 @ [(''solid'', Query ?req)]\<rparr>"
  let ?w = "Encode_to newResponse (png_Encode example_library 2)"
  have f: "factory example_server ''solid'' = Some (\<lambda>opts. Inr 2)"
    by (simp add: example_defs)
  have d1: "drawFractal example_library 5 newResponse ?req ''solid'' ?off = Inr (?w, ?s1)"
    by (simp add: drawFractal_disabled f)
  have d2: "drawFractal example_library 6 newResponse ?req ''solid'' ?s1 = Inr (?w, ?s2)"
    by (simp add: drawFractal_disabled f)
  have i: "pngCache ?off = NewCache" "lookups ?off = []" "goroutines ?off = []"
    "factoryCalls ?off = []" "disableCache ?off"
    by (simp_all add: example_defs)
  note t = cache_bypass_and_hit [where L = example_library and now = 5 and now' = 6
      and w = newResponse and w' = newResponse and req = ?req and ft = "''solid''" and clock = 9]
  from t [where st = ?off and ?w1.0 = ?w and ?st1.0 = ?s1 and ?w2.0 = ?w and ?st2.0 = ?s2] d1 d2 i
  have A: "pngCache ?s1 = NewCache \<and> lookups ?s1 = [] \<and> goroutines ?s1 = [] \<and>
      factoryCalls ?s1 = [(''solid'', Query ?req)] \<and>
      pngCache ?s2 = NewCache \<and> lookups ?s2 = [] \<and> goroutines ?s2 = [] \<and>
      factoryCalls ?s2 = [(''solid'', Query ?req), (''solid'', Query ?req)]"
    by simp
  let ?k = "fsNameFromURL (RequestURI ?req)"
  let ?cp = "\<lparr>Timestamp = 5, Bytes = fst (png_Encode example_library 2)\<rparr>"
  let ?e1 = "example_server\<lparr>lookups := lookups example_server @ [?k],
                       factoryCalls := factoryCalls example_server @ [(''solid'', Query ?req)],
                       pngCache := cache_Add (pngCache example_server) ?k ?cp,
                       goroutines := goroutines example_server @ [?k]\<rparr>"
  have n: "\<not> disableCache example_server"
    "cache_Get (pngCache example_server) ?k = None"
    by (simp_all add: example_defs cache_Get_def NewCache_def)
  from n f have e1: "drawFractal example_library 5 newResponse ?req ''solid'' example_server =
     Inr (respond example_library newResponse ?cp, ?e1)"
    by (simp add: drawFractal_miss)
  have "statusCode (respond example_library newResponse ?cp) = 200"
    by (rule respond_fresh)
  with t [where st = example_server and ?w1.0 = "respond example_library newResponse ?cp"
      and ?st1.0 = ?e1 and ?w2.0 = ?w and ?st2.0 = ?s2] n e1
  obtain cp st2 where
    "drawFractal example_library 6 newResponse ?req ''solid'' ?e1
        = Inr (respond example_library newResponse cp, st2)"
    "body (respond example_library newResponse ?cp) = Bytes cp"
    "factoryCalls st2 = factoryCalls ?e1"
    by auto
  with e1 have B: "\<exists>w1 st1 cp st2.
      drawFractal example_library 5 newResponse ?req ''solid'' example_server = Inr (w1, st1) \<and>
      drawFractal example_library 6 newResponse ?req ''solid'' st1
        = Inr (respond example_library newResponse cp, st2) \<and>
      body w1 = Bytes cp \<and> factoryCalls st2 = factoryCalls st1"
    by blast
  from d1 d2 A have "\<exists>w1 st1 w2 st2.
      drawFractal example_library 5 newResponse ?req ''solid'' ?off = Inr (w1, st1) \<and>
      drawFractal example_library 6 newResponse ?req ''solid'' st1 = Inr (w2, st2) \<and>
      pngCache st1 = NewCache \<and> lookups st1 = [] \<and> goroutines st1 = [] \<and>
      factoryCalls st1 = [(''solid'', Query ?req)] \<and>
      pngCache st2 = NewCache \<and> lookups st2 = [] \<and> goroutines st2 = [] \<and>
      factoryCalls st2 = [(''solid'', Query ?req), (''solid'', Query ?req)]"
    by blast
  with B show ?thesis by (rule conjI [rotated])
qed

text \<open>
  C10: \<open>fsNameFromURL\<close> is not injective: the request URIs \<open>/m?a=1,b=2\<close> and
  \<open>/m?a=1&b=2\<close> differ and have the same cache key. Two such requests, with different
  queries, have the same path on disk, and the second is answered with the cache entry
  of the first, without a call of the constructor.
\<close>

theorem fsNameFromURL_not_injective:
  "''/m?a=1,b=2'' \<noteq> ''/m?a=1&b=2'' \<and>
   fsNameFromURL ''/m?a=1,b=2'' = fsNameFromURL ''/m?a=1&b=2'' \<and>
   \<not> inj fsNameFromURL \<and>
   RequestURI comma_request \<noteq> RequestURI amp_request \<and>
   Query comma_request ''b'' \<noteq> Query amp_request ''b'' \<and>
   cacheDir example_server @ fsNameFromURL (RequestURI comma_request) =
     cacheDir example_server @ fsNameFromURL (RequestURI amp_request) \<and>
   (case drawFractal example_library 5 newResponse comma_request ''solid'' example_server of
      Inl p \<Rightarrow> False
    | Inr (w1, st1) \<Rightarrow>
        (case drawFractal example_library 6 newResponse amp_request ''solid'' st1 of
           Inl p \<Rightarrow> False
         | Inr (w2, st2) \<Rightarrow>
             w2 = w1 \<and> pngCache st2 = pngCache st1 \<and> goroutines st2 = goroutines st1 \<and>
             factoryCalls st2 = [(''solid'', Query comma_request)]))"
proof -
  have e: "fsNameFromURL ''/m?a=1,b=2'' = fsNameFromURL ''/m?a=1&b=2''"
    by (simp add: fsNameFromURL_def cleanup_def)
  have d: "''/m?a=1,b=2'' \<noteq> ''/m?a=1&b=2''" by simp
  from e d have i: "\<not> inj fsNameFromURL" by (auto simp: inj_def)
  have r: "RequestURI comma_request \<noteq> RequestURI amp_request"
    "Query comma_request ''b'' \<noteq> Query amp_request ''b''"
    "cacheDir example_server @ fsNameFromURL (RequestURI comma_request) =
     cacheDir example_server @ fsNameFromURL (RequestURI amp_request)"
    by (simp_all add: comma_request_def amp_request_def fsNameFromURL_def cleanup_def)
  let ?cp = "\<lparr>Timestamp = 5, Bytes = fst (png_Encode example_library 2)\<rparr>"
  let ?k = "fsNameFromURL (RequestURI comma_request)"
  let ?s1 = "example_server\<lparr>lookups := lookups example_server @ [?k],
               factoryCalls := factoryCalls example_server @ [(''solid'', Query comma_request)],
               pngCache := cache_Add (pngCache example_server) ?k ?cp,
               goroutines := goroutines example_server @ [?k]\<rparr>"
  have k: "fsNameFromURL (RequestURI amp_request) = ?k"
    by (simp add: comma_request_def amp_request_def fsNameFromURL_def cleanup_def)
  have f: "\<not> disableCache example_server"
    "cache_Get (pngCache example_server) ?k = None"
    "factory example_server ''solid'' = Some (\<lambda>opts. Inr 2)"
    "factoryCalls example_server = []"
    by (simp_all add: example_defs cache_Get_def NewCache_def)
  from f have 1: "drawFractal example_library 5 newResponse comma_request ''solid'' example_server =
      Inr (respond example_library newResponse ?cp, ?s1)"
    by (simp add: drawFractal_miss)
  have "\<not> disableCache ?s1"
    and "cache_Get (pngCache ?s1) (fsNameFromURL (RequestURI amp_request)) = Some ?cp"
    using f by (simp_all add: k cache_Get_def cache_Add_def)
  then have 2: "drawFractal example_library 6 newResponse amp_request ''solid'' ?s1 =
      Inr (respond example_library newResponse ?cp,
           ?s1\<lparr>lookups := lookups ?s1 @ [fsNameFromURL (RequestURI amp_request)]\<rparr>)"
    by (rule drawFractal_hit)
  have run: "(case drawFractal example_library 5 newResponse comma_request ''solid'' example_server of
      Inl p \<Rightarrow> False
    | Inr (w1, st1) \<Rightarrow>
        (case drawFractal example_library 6 newResponse amp_request ''solid'' st1 of
           Inl p \<Rightarrow> False
         | Inr (w2, st2) \<Rightarrow>
             w2 = w1 \<and> pngCache st2 = pngCache st1 \<and> goroutines st2 = goroutines st1 \<and>
             factoryCalls st2 = [(''solid'', Query comma_request)]))"
    by (simp only: 1 2 sum.case prod.case) (simp add: f)
  from e d i r run show ?thesis by simp
qed

end
